theory Spec2Isabelle
  imports Main
begin

section \<open>The download task loop of app.py\<close>

text \<open>
  The theory embeds the task loop of \<^verbatim>\<open>app.py\<close> (lines 114 to 208): for every entry
  of \<^verbatim>\<open>config.DOWNLOAD_ACTIONS\<close> the candidate loop with its \<^verbatim>\<open>for ... else\<close>, and the
  block that extracts one member of a downloaded archive and copies it to its final
  destination. The module-level names \<^verbatim>\<open>v\<close> and \<^verbatim>\<open>download_destination\<close> live in the
  state, each possibly unbound; the log and the files on disk are state as well. The
  remote service answers as a function of the request. Strings are byte strings, and
  \<^verbatim>\<open>upper\<close> and \<^verbatim>\<open>strip\<close> are modelled on ASCII.
\<close>

subsection \<open>Configuration data\<close>

type_synonym metadata = "(string \<times> string) list"

text \<open>
  One download action (a dictionary of \<^verbatim>\<open>config.py\<close>). All seven keys are fields, so a
  missing key is excluded by the type. The key \<^verbatim>\<open>method\<close> is the field \<open>method_name\<close>.
\<close>

record candidate =
  URL :: string
  method_name :: string
  metadata :: metadata
  filename :: string
  extract_zip :: bool
  zip_member_to_extract :: string
  zip_member_final_destination :: string

text \<open>A value of \<^verbatim>\<open>DOWNLOAD_ACTIONS\<close>: one dictionary, or a list of dictionaries.\<close>

datatype actions = Single candidate | Several "candidate list"

type_synonym task = "string \<times> actions"

subsection \<open>Paths, files and responses\<close>

text \<open>\<^verbatim>\<open>pathlib.Path(s)\<close> and the operator \<^verbatim>\<open>/\<close>, kept symbolic.\<close>

datatype path = Path string | Slash path string

text \<open>
  A file on disk: plain bytes, a zip archive with its members, or a file that passes the
  signature test of \<^verbatim>\<open>zipfile.is_zipfile\<close> and that \<^verbatim>\<open>zipfile.ZipFile\<close> refuses
  with \<^verbatim>\<open>BadZipFile\<close>.
\<close>

datatype disk_file = Bytes string | Zip "(string \<times> string) list" | Damaged

text \<open>
  The body of a streamed response: it arrives whole, or the connection breaks after the
  given bytes have been written (\<^verbatim>\<open>ConnectionError\<close> or \<^verbatim>\<open>IOError\<close> inside the
  \<^verbatim>\<open>with open(...)\<close> block).
\<close>

datatype stream = Complete disk_file | Interrupted string

record response =
  status_code :: nat
  raw :: stream

text \<open>
  What the script reads from outside: the download directory and the session. A request
  that raises (a \<^verbatim>\<open>RequestException\<close>) answers \<open>None\<close>.
\<close>

record env =
  download_directory :: path
  post :: "string \<Rightarrow> metadata \<Rightarrow> response option"
  get :: "string \<Rightarrow> metadata \<Rightarrow> response option"

subsection \<open>Log, exceptions and state\<close>

text \<open>The logger method called; \<open>Exception\<close> is \<^verbatim>\<open>logger.exception\<close>.\<close>

datatype level = Debug | Info | Warning | Error | Exception

text \<open>The messages of the task loop, each with the values its f-string interpolates.\<close>

datatype message =
    Now_attempting_download string string metadata
  | Full_download_instructions candidate
  | Method_is_unsupported candidate string
  | Download_started string
  | Download_completed string
  | Download_unsuccessful string
  | Download_could_not_be_started string string metadata
  | No_iteration_successful string
  | Now_attempting_to_extract string string
  | Successfully_extracted string string
  | Not_successfully_extracted string string
  | Final_destination_already_exists path string
  | Final_destination_does_not_yet_exist path string
  | Successfully_copied string path
  | Could_not_be_copied string path
  | Not_a_valid_zip_file string
  | Total_script_execution_time

type_synonym entry = "level \<times> message"

datatype exn = ValueError | NameError | KeyError | RequestException

record state =
  logged :: "entry list"
  files :: "path \<Rightarrow> disk_file option"
  var_v :: "candidate option"
  download_destination :: "path option"

text \<open>A computation returns a value, or raises with the state it has reached.\<close>

type_synonym 'a result = "(exn \<times> state) + 'a"

definition logger :: "level \<Rightarrow> message \<Rightarrow> state \<Rightarrow> state" where
  "logger lv m st = st\<lparr>logged := logged st @ [(lv, m)]\<rparr>"

definition initial_state :: "(path \<Rightarrow> disk_file option) \<Rightarrow> state" where
  "initial_state fs =
     \<lparr>logged = [], files = fs, var_v = None, download_destination = None\<rparr>"

subsection \<open>String operations\<close>

text \<open>\<^verbatim>\<open>str.upper\<close> on ASCII letters.\<close>

definition upper_char :: "char \<Rightarrow> char" where
  "upper_char c =
     (case map_of (zip ''abcdefghijklmnopqrstuvwxyz'' ''ABCDEFGHIJKLMNOPQRSTUVWXYZ'') c of
        Some u \<Rightarrow> u
      | None \<Rightarrow> c)"

definition upper :: "string \<Rightarrow> string" where
  "upper s = map upper_char s"

text \<open>The ASCII characters \<^verbatim>\<open>str.strip\<close> removes: codes 9 to 13, 28 to 31 and 32.\<close>

definition is_space :: "char \<Rightarrow> bool" where
  "is_space c =
     (c \<in> set [CHR 0x09, CHR 0x0A, CHR 0x0B, CHR 0x0C, CHR 0x0D,
               CHR 0x1C, CHR 0x1D, CHR 0x1E, CHR 0x1F, CHR 0x20])"

definition strip :: "string \<Rightarrow> string" where
  "strip s = rev (dropWhile is_space (rev (dropWhile is_space s)))"

text \<open>\<^verbatim>\<open>s.split(sep)\<close> for a separator of one character; the result is never empty.\<close>

fun split_on :: "char \<Rightarrow> string \<Rightarrow> string list" where
  "split_on sep [] = [[]]"
| "split_on sep (c # cs) =
     (if c = sep then [] # split_on sep cs
      else (case split_on sep cs of
              [] \<Rightarrow> [[c]]
            | w # ws \<Rightarrow> (c # w) # ws))"

subsection \<open>The candidate loop (lines 117 to 157)\<close>

text \<open>Lines 123 to 138: the request by method, or \<^verbatim>\<open>ValueError\<close>.\<close>

definition request :: "env \<Rightarrow> candidate \<Rightarrow> state \<Rightarrow> response result" where
  "request e c st =
     (if strip (upper (method_name c)) = ''POST'' then
        (case post e (URL c) (metadata c) of
           None \<Rightarrow> Inl (RequestException, st)
         | Some r \<Rightarrow> Inr r)
      else if strip (upper (method_name c)) = ''GET'' then
        (case get e (URL c) (metadata c) of
           None \<Rightarrow> Inl (RequestException, st)
         | Some r \<Rightarrow> Inr r)
      else Inl (ValueError, logger Exception (Method_is_unsupported c (method_name c)) st))"

datatype loop_exit = Break | NoBreak

text \<open>Lines 118 to 155: the body of the candidate loop for one candidate.\<close>

definition attempt :: "env \<Rightarrow> string \<Rightarrow> candidate \<Rightarrow> state \<Rightarrow> (loop_exit \<times> state) result" where
  "attempt e k c st0 =
     (let st1 = logger Info (Now_attempting_download k (method_name c) (metadata c)) st0;
          st2 = logger Debug (Full_download_instructions c) st1
      in case request e c st2 of
           Inl x \<Rightarrow> Inl x
         | Inr r \<Rightarrow>
             if status_code r = 200 then
               (let st3 = logger Info (Download_started k) st2;
                    dest = Slash (download_directory e) (filename c);
                    st4 = st3\<lparr>download_destination := Some dest\<rparr>
                in case raw r of
                     Complete f \<Rightarrow>
                       Inr (Break, logger Info (Download_completed k)
                                     (st4\<lparr>files := (files st4)(dest \<mapsto> f)\<rparr>))
                   | Interrupted part \<Rightarrow>
                       Inr (NoBreak, logger Exception (Download_unsuccessful k)
                                       (st4\<lparr>files := (files st4)(dest \<mapsto> Bytes part)\<rparr>)))
             else
               Inr (NoBreak,
                    logger Warning
                      (Download_could_not_be_started k (method_name c) (metadata c)) st2))"

text \<open>
  The \<^verbatim>\<open>for v in v_list: ... else: ...\<close> statement. The \<^verbatim>\<open>else\<close> branch runs when the
  list is used up with no \<^verbatim>\<open>break\<close>, which is the empty-list case of the recursion.
\<close>

fun candidate_loop ::
  "env \<Rightarrow> string \<Rightarrow> candidate list \<Rightarrow> state \<Rightarrow> (loop_exit \<times> state) result" where
  "candidate_loop e k [] st = Inr (NoBreak, logger Error (No_iteration_successful k) st)"
| "candidate_loop e k (c # cs) st =
     (case attempt e k c (st\<lparr>var_v := Some c\<rparr>) of
        Inl x \<Rightarrow> Inl x
      | Inr (Break, st') \<Rightarrow> Inr (Break, st')
      | Inr (NoBreak, st') \<Rightarrow> candidate_loop e k cs st')"

subsection \<open>Extraction and copy (lines 159 to 208)\<close>

definition is_zipfile :: "(path \<Rightarrow> disk_file option) \<Rightarrow> path \<Rightarrow> bool" where
  "is_zipfile fs p =
     (case fs p of
        Some (Zip ms) \<Rightarrow> True
      | Some Damaged \<Rightarrow> True
      | _ \<Rightarrow> False)"

definition zip_file_contents_directory :: "env \<Rightarrow> candidate \<Rightarrow> path" where
  "zip_file_contents_directory e c =
     Slash (download_directory e) (hd (split_on CHR ''.'' (filename c)))"

text \<open>
  Lines 160 to 181. \<^verbatim>\<open>ZipFile.extract\<close> raises \<^verbatim>\<open>KeyError\<close> for a member the archive
  does not hold, and the handler of line 177 names \<^verbatim>\<open>BadZipFile\<close> and \<^verbatim>\<open>IOError\<close> only.
\<close>

definition extract_member :: "env \<Rightarrow> string \<Rightarrow> candidate \<Rightarrow> path \<Rightarrow> state \<Rightarrow> state result" where
  "extract_member e k c d st =
     (let st1 = logger Info (Now_attempting_to_extract (zip_member_to_extract c) k) st
      in case files st1 d of
           Some (Zip ms) \<Rightarrow>
             (case map_of ms (zip_member_to_extract c) of
                None \<Rightarrow> Inl (KeyError, st1)
              | Some bytes \<Rightarrow>
                  Inr (logger Info (Successfully_extracted (zip_member_to_extract c) k)
                         (st1\<lparr>files := (files st1)
                            (Slash (zip_file_contents_directory e c) (zip_member_to_extract c)
                               \<mapsto> Bytes bytes)\<rparr>)))
         | _ \<Rightarrow>
             Inr (logger Exception
                    (Not_successfully_extracted (zip_member_to_extract c) k) st1))"

text \<open>Lines 182 to 206: the existence test, then \<^verbatim>\<open>shutil.copy2\<close> in its own \<^verbatim>\<open>try\<close>.\<close>

definition copy_member :: "env \<Rightarrow> candidate \<Rightarrow> state \<Rightarrow> state" where
  "copy_member e c st =
     (let final_destination = Path (zip_member_final_destination c);
          st1 = (if files st final_destination \<noteq> None
                 then logger Warning
                        (Final_destination_already_exists final_destination
                           (zip_member_to_extract c)) st
                 else logger Info
                        (Final_destination_does_not_yet_exist final_destination
                           (zip_member_to_extract c)) st)
      in case files st1 (Slash (zip_file_contents_directory e c) (zip_member_to_extract c)) of
           Some f \<Rightarrow>
             logger Info (Successfully_copied (zip_member_to_extract c) final_destination)
               (st1\<lparr>files := (files st1)(final_destination \<mapsto> f)\<rparr>)
         | None \<Rightarrow>
             logger Exception (Could_not_be_copied (zip_member_to_extract c) final_destination)
               st1)"

text \<open>
  Lines 159 to 208. Reading \<^verbatim>\<open>v\<close> or \<^verbatim>\<open>download_destination\<close> while it is unbound
  raises \<^verbatim>\<open>NameError\<close>; \<^verbatim>\<open>and\<close> reads \<^verbatim>\<open>download_destination\<close> only when
  \<^verbatim>\<open>v['extract_zip']\<close> holds.
\<close>

definition extraction_block :: "env \<Rightarrow> string \<Rightarrow> state \<Rightarrow> state result" where
  "extraction_block e k st =
     (case var_v st of
        None \<Rightarrow> Inl (NameError, st)
      | Some c \<Rightarrow>
          if extract_zip c then
            (case download_destination st of
               None \<Rightarrow> Inl (NameError, st)
             | Some d \<Rightarrow>
                 if is_zipfile (files st) d then
                   (case extract_member e k c d st of
                      Inl x \<Rightarrow> Inl x
                    | Inr st' \<Rightarrow> Inr (copy_member e c st'))
                 else Inr (logger Error (Not_a_valid_zip_file k) st))
          else Inr st)"

subsection \<open>The task loop (lines 114 to 213)\<close>

fun as_list :: "actions \<Rightarrow> candidate list" where
  "as_list (Single c) = [c]"
| "as_list (Several cs) = cs"

fun process_task :: "env \<Rightarrow> task \<Rightarrow> state \<Rightarrow> state result" where
  "process_task e (k, v_list) st =
     (case candidate_loop e k (as_list v_list) st of
        Inl x \<Rightarrow> Inl x
      | Inr (b, st') \<Rightarrow> extraction_block e k st')"

fun task_loop :: "env \<Rightarrow> task list \<Rightarrow> state \<Rightarrow> state result" where
  "task_loop e [] st = Inr st"
| "task_loop e (t # ts) st =
     (case process_task e t st of
        Inl x \<Rightarrow> Inl x
      | Inr st' \<Rightarrow> task_loop e ts st')"

definition script :: "env \<Rightarrow> task list \<Rightarrow> (path \<Rightarrow> disk_file option) \<Rightarrow> state result" where
  "script e tasks fs =
     (case task_loop e tasks (initial_state fs) of
        Inl x \<Rightarrow> Inl x
      | Inr st \<Rightarrow> Inr (logger Info Total_script_execution_time st))"

subsection \<open>Observations used in the statements\<close>







subsection \<open>A concrete service and concrete candidates\<close>

text \<open>
  A service for the closed instances below. It answers 500 to the one \<^verbatim>\<open>POST\<close> address,
  serves an archive, a body that breaks off, a damaged archive and an image over
  \<^verbatim>\<open>GET\<close>, raises for one address and answers 404 to every other request.
\<close>

definition example_env :: env where
  "example_env =
     \<lparr>download_directory = Path ''archive'',
      post = (\<lambda>url md.
        if url = ''http://host/report'' then
          Some \<lparr>status_code = 500, raw = Complete (Bytes ''error'')\<rparr>
        else Some \<lparr>status_code = 404, raw = Complete (Bytes [])\<rparr>),
      get = (\<lambda>url md.
        if url = ''http://host/report.zip'' then
          Some \<lparr>status_code = 200, raw = Complete (Zip [(''report.csv'', ''a,b'')])\<rparr>
        else if url = ''http://host/cut.zip'' then
          Some \<lparr>status_code = 200, raw = Interrupted ''PK''\<rparr>
        else if url = ''http://host/bad.zip'' then
          Some \<lparr>status_code = 200, raw = Complete Damaged\<rparr>
        else if url = ''http://host/image/png'' then
          Some \<lparr>status_code = 200, raw = Complete (Bytes ''png'')\<rparr>
        else if url = ''http://down/'' then None
        else Some \<lparr>status_code = 404, raw = Complete (Bytes [])\<rparr>)\<rparr>"

definition cand_post :: candidate where
  "cand_post =
     \<lparr>URL = ''http://host/report'', method_name = ''post'', metadata = [(''year'', ''2020'')],
      filename = ''report.v2.zip'', extract_zip = True,
      zip_member_to_extract = ''report.csv'',
      zip_member_final_destination = ''out/report.csv''\<rparr>"

definition cand_zip :: candidate where
  "cand_zip =
     \<lparr>URL = ''http://host/report.zip'', method_name = '' Get '', metadata = [],
      filename = ''report.v2.zip'', extract_zip = True,
      zip_member_to_extract = ''report.csv'',
      zip_member_final_destination = ''out/report.csv''\<rparr>"

definition cand_cut :: candidate where
  "cand_cut =
     \<lparr>URL = ''http://host/cut.zip'', method_name = ''GET'', metadata = [],
      filename = ''cut.zip'', extract_zip = True,
      zip_member_to_extract = ''report.csv'',
      zip_member_final_destination = ''out/report.csv''\<rparr>"

definition cand_bad :: candidate where
  "cand_bad =
     \<lparr>URL = ''http://host/bad.zip'', method_name = ''get'', metadata = [],
      filename = ''report.v2.zip'', extract_zip = True,
      zip_member_to_extract = ''report.csv'',
      zip_member_final_destination = ''out/report.csv''\<rparr>"

definition cand_missing :: candidate where
  "cand_missing =
     \<lparr>URL = ''http://host/missing.zip'', method_name = ''get'', metadata = [],
      filename = ''missing.zip'', extract_zip = True,
      zip_member_to_extract = ''report.csv'',
      zip_member_final_destination = ''out/report.csv''\<rparr>"

definition cand_put :: candidate where
  "cand_put =
     \<lparr>URL = ''http://host/report.zip'', method_name = ''put'', metadata = [],
      filename = ''report.v2.zip'', extract_zip = False,
      zip_member_to_extract = [],
      zip_member_final_destination = []\<rparr>"

definition cand_png :: candidate where
  "cand_png =
     \<lparr>URL = ''http://host/image/png'', method_name = ''get'', metadata = [],
      filename = ''image.png'', extract_zip = False,
      zip_member_to_extract = [],
      zip_member_final_destination = []\<rparr>"





text \<open>The state the candidate loop of the concrete service leaves, from given files.\<close>

definition state_after :: "candidate list \<Rightarrow> (path \<Rightarrow> disk_file option) \<Rightarrow> state" where
  "state_after cs fs =
     (case candidate_loop example_env ''data'' cs (initial_state fs) of
        Inl (x, st) \<Rightarrow> st
      | Inr (b, st) \<Rightarrow> st)"

section \<open>Properties\<close>

lemma split_on_not_Nil: "split_on sep s \<noteq> []"
  by (induction s) (auto split: list.splits)

subsection \<open>Auxiliary facts\<close>

lemma hd_split_on: "hd (split_on sep s) = takeWhile (\<lambda>c. c \<noteq> sep) s"
  by (induction s) (auto split: list.splits simp: split_on_not_Nil)












lemmas example_defs =
  example_env_def cand_post_def cand_zip_def cand_cut_def cand_bad_def cand_missing_def
  cand_put_def cand_png_def

lemmas string_defs = strip_def upper_def upper_char_def is_space_def




subsection \<open>The candidate loop\<close>






subsection \<open>Normalising the method\<close>












subsection \<open>The task loop\<close>



subsection \<open>Extraction and copy\<close>

text \<open>
  C7. The extraction directory is the download directory joined with the file name cut
  before its first full stop; for \<^verbatim>\<open>data.v2.zip\<close> that is \<^verbatim>\<open>data\<close> and not \<^verbatim>\<open>data.v2\<close>.
\<close>

theorem extraction_directory_stops_at_first_dot:
  "zip_file_contents_directory e c =
     Slash (download_directory e) (takeWhile (\<lambda>x. x \<noteq> CHR ''.'') (filename c)) \<and>
   zip_file_contents_directory e (c\<lparr>filename := ''data.v2.zip''\<rparr>) =
     Slash (download_directory e) ''data'' \<and>
   zip_file_contents_directory e (c\<lparr>filename := ''data.v2.zip''\<rparr>) \<noteq>
     Slash (download_directory e) ''data.v2''"
  by (simp add: zip_file_contents_directory_def hd_split_on)


lemmas run_defs =
  state_after_def attempt_def request_def Let_def logger_def initial_state_def
  example_defs string_defs






text \<open>
  With \<^verbatim>\<open>v\<close> bound, the block of lines 159 to 208 leaves the state as it is exactly
  when \<^verbatim>\<open>v['extract_zip']\<close> is false; the outcome of the download plays no part.
\<close>

lemma extraction_block_only_when_flagged:
  assumes "var_v st = Some c"
  shows "(extraction_block e k st = Inr st) = (\<not> extract_zip c)"
proof (cases "extract_zip c")
  case False
  with assms show ?thesis by (simp add: extraction_block_def)
next
  case True
  have "extraction_block e k st \<noteq> Inr st"
  proof
    assume a: "extraction_block e k st = Inr st"
    then have "length (logged st) < length (logged st)"
      using assms True
      by (auto simp: extraction_block_def extract_member_def copy_member_def Let_def logger_def
          split: option.splits if_splits disk_file.splits sum.splits
          dest!: arg_cong [where f = "\<lambda>s. length (logged s)"])
    then show False by simp
  qed
  with True show ?thesis by simp
qed

text \<open>
  C2, at two inputs. Nothing guards line 159 against a download that did not happen. A
  first task whose only candidate is answered 404 and is flagged for extraction ends the
  run with \<^verbatim>\<open>NameError\<close>, since \<^verbatim>\<open>download_destination\<close> was never bound. After a
  task that downloaded an archive, the same failed task extracts from the archive of the
  earlier task, under its own key.
\<close>

theorem extraction_reads_unbound_or_stale_destination:
  "isl (script example_env [(''data'', Single cand_missing)] Map.empty) \<and>
   fst (projl (script example_env [(''data'', Single cand_missing)] Map.empty)) = NameError \<and>
   logged (snd (projl (script example_env [(''data'', Single cand_missing)] Map.empty))) =
     [(Info, Now_attempting_download ''data'' ''get'' []),
      (Debug, Full_download_instructions cand_missing),
      (Warning, Download_could_not_be_started ''data'' ''get'' []),
      (Error, No_iteration_successful ''data'')] \<and>
   \<not> isl (script example_env [(''a'', Single cand_zip), (''b'', Single cand_missing)] Map.empty) \<and>
   drop 8 (logged (projr (script example_env
                            [(''a'', Single cand_zip), (''b'', Single cand_missing)] Map.empty))) =
     [(Info, Now_attempting_download ''b'' ''get'' []),
      (Debug, Full_download_instructions cand_missing),
      (Warning, Download_could_not_be_started ''b'' ''get'' []),
      (Error, No_iteration_successful ''b''),
      (Info, Now_attempting_to_extract ''report.csv'' ''b''),
      (Info, Successfully_extracted ''report.csv'' ''b''),
      (Warning, Final_destination_already_exists (Path ''out/report.csv'') ''report.csv''),
      (Info, Successfully_copied ''report.csv'' (Path ''out/report.csv'')),
      (Info, Total_script_execution_time)] \<and>
   download_destination (projr (script example_env
                            [(''a'', Single cand_zip), (''b'', Single cand_missing)] Map.empty)) =
     Some (Slash (Path ''archive'') (filename cand_zip))"
  by (simp add: script_def extraction_block_def is_zipfile_def extract_member_def
      copy_member_def zip_file_contents_directory_def run_defs)

subsection \<open>Failures and the run\<close>
















end
